theory Spec2Isabelle
  imports Main "HOL-Library.Sublist" "HOL-Library.List_Lexorder" "HOL-Library.Char_ord"
    "HOL-Library.AList"
begin

section \<open>Strings and the regular expressions of the source\<close>

text \<open>
  JavaScript strings are sequences of code units; they are modelled as \<open>string\<close>
  (a list of \<open>char\<close>), one \<open>char\<close> per code unit, which covers the strings of
  code units below 256. Each regular expression of the source is written out as the
  list function it computes.
\<close>

definition TAB :: char where
  "TAB = CHR 0x09"

definition NL :: char where
  "NL = CHR 0x0A"

definition CR :: char where
  "CR = CHR 0x0D"

definition BSL :: char where
  "BSL = CHR 0x5C"

text \<open>The character class \<open>[0-9A-Za-z]\<close>.\<close>

definition alnum :: "char \<Rightarrow> bool" where
  "alnum c = (c \<in> set ''0123456789ABCDEFGHIJKLMNOPQRSTUVWXYZabcdefghijklmnopqrstuvwxyz'')"

text \<open>
  The dot of a regular expression (without the \<open>s\<close> flag) matches every code unit but a
  line terminator. Of the four line terminators of the language two are code units
  below 256.
\<close>

definition line_terminator :: "char \<Rightarrow> bool" where
  "line_terminator c = (c = NL \<or> c = CR)"

text \<open>\<open>s.replace(/a/g, b)\<close> for single characters \<open>a\<close> and \<open>b\<close>.\<close>

definition replace_char :: "char \<Rightarrow> char \<Rightarrow> string \<Rightarrow> string" where
  "replace_char a b s = map (\<lambda>c. if c = a then b else c) s"

text \<open>\<open>s.replace(/^file:\/\//, '')\<close>.\<close>

definition strip_file_scheme :: "string \<Rightarrow> string" where
  "strip_file_scheme s = (if prefix ''file://'' s then drop 7 s else s)"

text \<open>\<open>s.match(/^[0-9A-Za-z]+:\//)\<close>: the colon is no member of the class, so the greedy
  run of class members has to be followed by \<open>:/\<close>.\<close>

definition drive_match :: "string \<Rightarrow> bool" where
  "drive_match s = (takeWhile alnum s \<noteq> [] \<and> take 2 (dropWhile alnum s) = '':/'')"

text \<open>\<open>s.match(/^\/[0-9A-Za-z]+:\//)\<close>.\<close>

definition url_drive_match :: "string \<Rightarrow> bool" where
  "url_drive_match s = (case s of [] \<Rightarrow> False | c # r \<Rightarrow> c = CHR ''/'' \<and> drive_match r)"

text \<open>\<open>s.replace(/^\//, 'file:///')\<close>.\<close>

definition root_to_file_scheme :: "string \<Rightarrow> string" where
  "root_to_file_scheme s =
     (case s of [] \<Rightarrow> [] | c # r \<Rightarrow> if c = CHR ''/'' then ''file:///'' @ r else s)"

section \<open>Path/URL codec\<close>

text \<open>
  Node's \<open>path.sep\<close> is \<open>/\<close> on POSIX platforms and the backslash on Windows; no other
  value exists.
\<close>

datatype platform = Posix | Win32

definition path_sep :: "platform \<Rightarrow> char" where
  "path_sep pf = (case pf of Posix \<Rightarrow> CHR ''/'' | Win32 \<Rightarrow> BSL)"

definition url2path :: "platform \<Rightarrow> string \<Rightarrow> string" where
  "url2path pf urlPath =
     (let nativePath = strip_file_scheme urlPath in
      if path_sep pf \<noteq> CHR ''/'' then
        (let nativePath' = (if url_drive_match nativePath then drop 1 nativePath else nativePath)
         in replace_char (CHR ''/'') (path_sep pf) nativePath')
      else nativePath)"

definition path2url :: "platform \<Rightarrow> string \<Rightarrow> string" where
  "path2url pf nativePath =
     (let urlPath =
        (if path_sep pf \<noteq> CHR ''/'' then
           (let urlPath' = replace_char (path_sep pf) (CHR ''/'') nativePath
            in if drive_match urlPath' then CHR ''/'' # urlPath' else urlPath')
         else nativePath)
      in root_to_file_scheme urlPath)"

text \<open>
  A Windows path that starts with a backslash in front of a drive designator
  (\<open>\C:\...\<close>): the one shape, among the paths without a forward slash, that the
  codec does not give back.
\<close>

definition sep_before_drive :: "string \<Rightarrow> bool" where
  "sep_before_drive p =
     (case p of [] \<Rightarrow> False
      | c # r \<Rightarrow> c = BSL \<and> takeWhile alnum r \<noteq> [] \<and> take 2 (dropWhile alnum r) = [CHR '':'', BSL])"

section \<open>Tables, errors and the environment\<close>

text \<open>
  A JavaScript object used as a table is an association list in insertion order: a
  read is \<open>map_of\<close>, and the write \<open>t[k] = v\<close> is \<open>AList.update k v\<close>, which replaces the
  value of a key in place and puts a new key last. (The keys here are paths and package
  names; a key that is a canonical array index would be listed first by \<open>Object.keys\<close>
  and is not considered.)

  A table made by \<open>{}\<close> is not empty to a reader: it inherits the members of
  \<open>Object.prototype\<close>, whose names are listed in \<open>inherited\<close> (as the language and its
  Annex B define them; a program that adds members is not considered). Read under such
  a name, a fresh table gives a function, or for \<open>__proto__\<close> the prototype itself,
  and each of them is truthy. So a test \<open>!t[k]\<close> is false for these names whatever the
  table holds.
\<close>

definition inherited :: "string list" where
  "inherited =
     [''constructor'', ''__defineGetter__'', ''__defineSetter__'', ''hasOwnProperty'',
      ''__lookupGetter__'', ''__lookupSetter__'', ''isPrototypeOf'', ''propertyIsEnumerable'',
      ''toString'', ''valueOf'', ''__proto__'', ''toLocaleString'']"

datatype error = TypeError | InternalModule | ResolveError | FileError

record PackageSpec =
  entryPath :: "string option"
  rootPath :: string

record BuildOptions =
  debug :: "bool option"
  sfx :: "bool option"
  bundlePath :: "string option"
  sourcePath :: "string option"
  outConfigPath :: "string option"
  includeConfigList :: "string list option"
  mapPackages :: "string list option"

text \<open>
  What the code takes from outside: the platform, the base directory of the build,
  Node's \<open>path.relative\<close> and \<open>path.dirname\<close>, \<open>fs.stat\<close> (does it succeed on a native
  path), the package resolver \<open>browser-resolve\<close>, the bundler's own \<open>normalize\<close> and
  its static alias map \<open>loader.map\<close> (which may be unset). The resolver and the
  normalizer may fail (\<open>None\<close>; the code never looks at their error). A successful
  resolution gives the resolved path and the calls it made to the \<open>packageFilter\<close>
  callback, in order, each with the \<open>name\<close> of the manifest (which may be missing) and
  the path of the manifest file.
\<close>

record env =
  plat :: platform
  basePath :: string
  relative :: "string \<Rightarrow> string \<Rightarrow> string"
  dirname :: "string \<Rightarrow> string"
  stat :: "string \<Rightarrow> bool"
  resolver :: "string \<Rightarrow> string \<Rightarrow> (string \<times> (string option \<times> string) list) option"
  oldNormalize :: "string \<Rightarrow> string \<Rightarrow> string \<Rightarrow> string option"
  loaderMap :: "(string \<Rightarrow> string option) option"

text \<open>
  The tables of one \<open>build\<close> call. \<open>resolveCalls\<close> is no variable of the source: it
  records each call of the external resolver (requested name and \<open>filename\<close> option),
  so that a statement can say how often package resolution was attempted.

  \<open>repoTbl\<close> holds what a read \<open>repoTbl[repoPath][name]\<close> finds. The code makes a
  repository only where \<open>repoTbl[repoPath]\<close> is falsy, which it never is under an
  inherited name: there \<open>specTbl\<close> is the inherited member and the spec is written onto
  it. Such an entry can be read back through the table, but the name is no key of the
  table. Likewise \<open>specTbl['__proto__'] = spec\<close> sets the prototype of the repository:
  the spec is read back under that name, which is no key of the repository. So the keys
  that \<open>Object.keys\<close> lists are given by \<open>ownKeys\<close> for \<open>repoTbl\<close> and by \<open>ownNames\<close>
  for a repository.
\<close>

record tables =
  fixTbl :: "(string \<times> string) list"
  repoTbl :: "(string \<times> (string \<times> PackageSpec) list) list"
  resolveCalls :: "(string \<times> string) list"

definition ownKeys :: "(string \<times> 'v) list \<Rightarrow> string list" where
  "ownKeys repos = filter (\<lambda>repoPath. repoPath \<notin> set inherited) (map fst repos)"

definition ownNames :: "(string \<times> 'v) list \<Rightarrow> string list" where
  "ownNames repo = filter (\<lambda>name. name \<noteq> ''__proto__'') (map fst repo)"

section \<open>Package Resolver Adapter: findPackage\<close>

definition lower_char :: "char \<Rightarrow> char" where
  "lower_char c =
     (case map_of (zip ''ABCDEFGHIJKLMNOPQRSTUVWXYZ'' ''abcdefghijklmnopqrstuvwxyz'') c of
        Some d \<Rightarrow> d
      | None \<Rightarrow> c)"

text \<open>\<open>node_modules\/\<close> under the \<open>i\<close> flag, at the start of \<open>s\<close>.\<close>

definition container_at :: "string \<Rightarrow> bool" where
  "container_at s = (map lower_char (take 13 s) = ''node_modules/'')"

text \<open>What the greedy \<open>.*\<close> leaves: it stops in front of the first line terminator.\<close>

definition after_dots :: "string \<Rightarrow> string" where
  "after_dots s = dropWhile (\<lambda>c. \<not> line_terminator c) s"

text \<open>
  \<open>s.replace(/((\/|^)node_modules)\/.*/i, '$1')\<close>: the leftmost match is replaced by
  its first group. \<open>truncate_scan\<close> looks for a match that starts with a slash,
  \<open>repo_path_of\<close> first tries the alternative \<open>^\<close> at the start of the string.
\<close>

fun truncate_scan :: "string \<Rightarrow> string" where
  "truncate_scan [] = []"
| "truncate_scan (c # cs) =
     (if c = CHR ''/'' \<and> container_at cs then c # take 12 cs @ after_dots (drop 13 cs)
      else c # truncate_scan cs)"

definition repo_path_of :: "string \<Rightarrow> string" where
  "repo_path_of s =
     (if container_at s then take 12 s @ after_dots (drop 13 s) else truncate_scan s)"



text \<open>
  \<open>rootName\<close> and \<open>rootPath\<close> are set by each call of \<open>packageFilter\<close>, so they hold
  what the last call gave, and are undefined when there was none.
\<close>

definition rootNameOf :: "(string option \<times> string) list \<Rightarrow> string option" where
  "rootNameOf calls = (case calls of [] \<Rightarrow> None | _ \<Rightarrow> fst (last calls))"

definition rootDirOf :: "env \<Rightarrow> (string option \<times> string) list \<Rightarrow> string option" where
  "rootDirOf e calls = (case calls of [] \<Rightarrow> None | _ \<Rightarrow> Some (dirname e (snd (last calls))))"

definition makeSpec ::
  "env \<Rightarrow> string \<Rightarrow> string \<Rightarrow> (string option \<times> string) list \<Rightarrow> error + PackageSpec" where
  "makeSpec e name pathName calls =
     (if rootNameOf calls = Some name then
        (case rootDirOf e calls of
           None \<Rightarrow> Inl TypeError
         | Some rootDir \<Rightarrow>
             Inr \<lparr>entryPath = Some (path2url (plat e) (relative e rootDir pathName)),
                  rootPath = path2url (plat e) (relative e (basePath e) rootDir)\<rparr>)
      else
        Inr \<lparr>entryPath = None,
             rootPath = path2url (plat e) (relative e (basePath e) pathName)\<rparr>)"

text \<open>
  \<open>let specTbl = repoTbl[repoPath]; if(!specTbl) repoTbl[repoPath] = specTbl = {};
  specTbl[name] = spec\<close>. Under an inherited \<open>repoPath\<close> the entry stands for the specs
  written onto the inherited member, as said above; the first of them finds none there.
\<close>

definition storeSpec :: "string \<Rightarrow> PackageSpec \<Rightarrow> tables \<Rightarrow> tables" where
  "storeSpec name spec st =
     (let repoPath = repo_path_of (rootPath spec);
          specTbl = (case map_of (repoTbl st) repoPath of None \<Rightarrow> [] | Some t \<Rightarrow> t)
      in st\<lparr>repoTbl := AList.update repoPath (AList.update name spec specTbl) (repoTbl st)\<rparr>)"

text \<open>The entry \<open>repoTbl[repoPath][name]\<close>.\<close>

definition specOf :: "tables \<Rightarrow> string \<Rightarrow> string \<Rightarrow> PackageSpec option" where
  "specOf st repoPath name =
     (case map_of (repoTbl st) repoPath of None \<Rightarrow> None | Some specTbl \<Rightarrow> map_of specTbl name)"

definition findPackage ::
  "env \<Rightarrow> tables \<Rightarrow> string \<Rightarrow> string \<Rightarrow> (error + string) \<times> tables" where
  "findPackage e st name parentName =
     (let filename = url2path (plat e) parentName;
          st1 = st\<lparr>resolveCalls := resolveCalls st @ [(name, filename)]\<rparr>
      in case resolver e name filename of
           None \<Rightarrow> (Inl ResolveError, st1)
         | Some (pathName, calls) \<Rightarrow>
             if pathName = name then (Inl InternalModule, st1)
             else (case makeSpec e name pathName calls of
                     Inl err \<Rightarrow> (Inl err, st1)
                   | Inr spec \<Rightarrow>
                       (Inr (path2url (plat e) (relative e (basePath e) pathName)),
                        storeSpec name spec st1)))"

section \<open>Normalization Interceptor\<close>

text \<open>
  \<open>pathName.replace(/.js$/, '/index.js')\<close>: the dot is not escaped, so it stands for any
  code unit but a line terminator.
\<close>

definition indexNameOf :: "string \<Rightarrow> string" where
  "indexNameOf pathName =
     (let n = length pathName in
      if 3 \<le> n \<and> drop (n - 2) pathName = ''js'' \<and> \<not> line_terminator (pathName ! (n - 3))
      then take (n - 3) pathName @ ''/index.js''
      else pathName)"

text \<open>
  \<open>builder.loader.map[name]\<close>, when the map is set and the entry is a non-empty string
  other than \<open>name\<close> (the test \<open>other && other != name\<close>).
\<close>

definition aliasOf :: "env \<Rightarrow> string \<Rightarrow> string option" where
  "aliasOf e name =
     (case loaderMap e of
        None \<Rightarrow> None
      | Some m \<Rightarrow>
          (case m name of
             None \<Rightarrow> None
           | Some other \<Rightarrow> if other \<noteq> [] \<and> other \<noteq> name then Some other else None))"

text \<open>
  \<open>newNormalize\<close> calls \<open>builder.loader.normalize\<close> for an aliased name: the hook that
  is installed at that moment, here the parameter \<open>hook\<close>. A run that does not come to
  an end is the value \<open>None\<close>.
\<close>

type_synonym outcome = "((error + string) \<times> tables) option"

definition newNormalize ::
  "(string \<Rightarrow> string \<Rightarrow> string \<Rightarrow> tables \<Rightarrow> outcome) \<Rightarrow> env \<Rightarrow> tables \<Rightarrow>
   string \<Rightarrow> string \<Rightarrow> string \<Rightarrow> string \<Rightarrow> outcome" where
  "newNormalize hook e st name parentName parentAddress pathName =
     (let indexName = indexNameOf pathName in
      case aliasOf e name of
        Some other \<Rightarrow> hook other parentName parentAddress st
      | None \<Rightarrow>
          if stat e (url2path (plat e) indexName) then
            (let oldPath = ''./'' @ relative e (basePath e) (url2path (plat e) pathName);
                 newPath = ''./'' @ relative e (basePath e) (url2path (plat e) indexName)
             in Some (Inr indexName, st\<lparr>fixTbl := AList.update oldPath newPath (fixTbl st)\<rparr>))
          else
            (case findPackage e st name parentName of
               (Inr resolved, st') \<Rightarrow> Some (Inr resolved, st')
             | (Inl err, st') \<Rightarrow> Some (Inr pathName, st')))"

text \<open>
  The function installed as \<open>builder.loader.normalize\<close> during bundling. Through an
  alias it calls itself, so it takes fuel: one unit for each run of the hook. When the
  original normalizer fails, \<open>pathName\<close> is still unset when \<open>newNormalize\<close> reads
  \<open>pathName.replace\<close>, which raises a TypeError that nothing catches.
\<close>

primrec loaderNormalize :: "nat \<Rightarrow> env \<Rightarrow> string \<Rightarrow> string \<Rightarrow> string \<Rightarrow> tables \<Rightarrow> outcome" where
  "loaderNormalize 0 e name parentName parentAddress st = None"
| "loaderNormalize (Suc fuel) e name parentName parentAddress st =
     (case oldNormalize e name parentName parentAddress of
        None \<Rightarrow> Some (Inl TypeError, st)
      | Some pathName \<Rightarrow>
          if stat e (url2path (plat e) pathName) then Some (Inr pathName, st)
          else newNormalize (loaderNormalize fuel e) e st name parentName parentAddress pathName)"

section \<open>Config Emitter: writeConfig\<close>

definition DQ :: char where
  "DQ = CHR 0x22"

definition tabs :: "nat \<Rightarrow> string" where
  "tabs n = replicate n TAB"

definition quoted :: "string \<Rightarrow> string" where
  "quoted s = DQ # s @ [DQ]"

text \<open>\<open>Array.prototype.join\<close> on an array of strings.\<close>

fun join :: "string \<Rightarrow> string list \<Rightarrow> string" where
  "join sp [] = []"
| "join sp [x] = x"
| "join sp (x # y # ys) = x @ sp @ join sp (y # ys)"

text \<open>
  The loop that flattens \<open>repoTbl\<close> into \<open>packageTbl\<close>, repository by repository in
  the order of \<open>Object.keys(repoTbl)\<close>, and in a repository name by name in the order
  of \<open>Object.keys(repo)\<close>.
\<close>

definition flattenRepos ::
  "(string \<times> (string \<times> PackageSpec) list) list \<Rightarrow> (string \<times> PackageSpec) list" where
  "flattenRepos repos =
     foldl (\<lambda>packageTbl repoPath.
              case map_of repos repoPath of
                None \<Rightarrow> packageTbl
              | Some repo \<Rightarrow>
                  foldl (\<lambda>tbl packageName.
                           case map_of repo packageName of
                             None \<Rightarrow> tbl
                           | Some spec \<Rightarrow> AList.update packageName spec tbl)
                        packageTbl (ownNames repo))
           [] (ownKeys repos)"

text \<open>
  One row for each key of a list of keys, read from a table; reading a field of a
  missing entry raises a TypeError.
\<close>

definition rowsOf ::
  "(string \<times> 'v) list \<Rightarrow> string list \<Rightarrow> (string \<Rightarrow> 'v \<Rightarrow> 'r) \<Rightarrow> error + 'r list" where
  "rowsOf tbl ks row =
     (case those (map (\<lambda>k. map_option (row k) (map_of tbl k)) ks) of
        None \<Rightarrow> Inl TypeError
      | Some rows \<Rightarrow> Inr rows)"

definition mapRow :: "string \<Rightarrow> PackageSpec \<Rightarrow> string" where
  "mapRow name spec = tabs 2 @ quoted name @ '': '' @ quoted (rootPath spec)"

definition metaRow :: "string \<Rightarrow> string \<Rightarrow> string" where
  "metaRow shimPath repoPath =
     tabs 2 @ [DQ] @ repoPath @ ''/*'' @ [DQ] @ '': { globals: { process: '' @
     quoted shimPath @ '' } }''"

text \<open>\<open>fixTbl[path]\<close> inside a string concatenation: a missing entry reads as \<open>undefined\<close>.\<close>

definition fixRow :: "(string \<times> string) list \<Rightarrow> string \<Rightarrow> string" where
  "fixRow fixes path =
     tabs 4 @ quoted path @ '': '' @
     quoted (case map_of fixes path of None \<Rightarrow> ''undefined'' | Some v \<Rightarrow> v)"

text \<open>
  \<open>entryPath && '...'\<close> followed by \<open>filter(row => row)\<close>: a row only for a package with
  a non-empty \<open>entryPath\<close>.
\<close>

definition mainRow :: "string \<Rightarrow> PackageSpec \<Rightarrow> string option" where
  "mainRow name spec =
     (case entryPath spec of
        None \<Rightarrow> None
      | Some ep \<Rightarrow>
          if ep = [] then None
          else Some (tabs 2 @ quoted name @ '': { main: '' @ quoted ep @ '' }''))"

definition mapSection :: "(string \<times> PackageSpec) list \<Rightarrow> error + string" where
  "mapSection packageTbl =
     (case rowsOf packageTbl (sort (map fst packageTbl)) mapRow of
        Inl err \<Rightarrow> Inl err
      | Inr rows \<Rightarrow>
          Inr (tabs 1 @ ''map: {'' @ [NL] @ join ('','' @ [NL]) rows @ [NL] @ tabs 1 @ ''}''))"

definition metaRows ::
  "string \<Rightarrow> (string \<times> (string \<times> PackageSpec) list) list \<Rightarrow> string list" where
  "metaRows shimPath repos = map (metaRow shimPath) (sort (ownKeys repos))"

definition metaSection ::
  "string \<Rightarrow> (string \<times> (string \<times> PackageSpec) list) list \<Rightarrow> string" where
  "metaSection shimPath repos =
     join [NL] [tabs 1 @ ''meta: {'', join ('','' @ [NL]) (metaRows shimPath repos), tabs 1 @ ''}'']"

definition packagesSection ::
  "(string \<times> string) list \<Rightarrow> (string \<times> PackageSpec) list \<Rightarrow> error + string" where
  "packagesSection fixes packageTbl =
     (case rowsOf packageTbl (sort (map fst packageTbl)) mainRow of
        Inl err \<Rightarrow> Inl err
      | Inr rows \<Rightarrow>
          Inr (join [NL]
                 [tabs 1 @ ''packages: {'',
                  tabs 2 @ quoted ''.'' @ '': {'',
                  tabs 3 @ ''map: {'',
                  join ('','' @ [NL]) (map (fixRow fixes) (map fst fixes)),
                  tabs 3 @ ''}'',
                  tabs 2 @ ''},'',
                  join ('','' @ [NL]) (List.map_filter (\<lambda>row. row) rows),
                  tabs 1 @ ''}'']))"

definition fixSection :: "(string \<times> string) list \<Rightarrow> string" where
  "fixSection fixes =
     tabs 1 @ ''packages: {'' @ [NL] @
     tabs 2 @ quoted ''.'' @ '': {'' @ [NL] @
     tabs 3 @ ''map: {'' @ [NL] @
     join ('','' @ [NL]) (map (fixRow fixes) (map fst fixes)) @ [NL] @
     tabs 3 @ ''}'' @ [NL] @
     tabs 2 @ ''}'' @ [NL] @
     tabs 1 @ ''}''"

definition sectionListOf ::
  "(string \<times> (string \<times> PackageSpec) list) list \<Rightarrow> (string \<times> string) list \<Rightarrow> string \<Rightarrow>
   error + string list" where
  "sectionListOf repos fixes shimPath =
     (let packageTbl = flattenRepos repos in
      case mapSection packageTbl of
        Inl err \<Rightarrow> Inl err
      | Inr s1 \<Rightarrow>
          (case packagesSection fixes packageTbl of
             Inl err \<Rightarrow> Inl err
           | Inr s3 \<Rightarrow>
               Inr ([s1, metaSection shimPath repos, s3] @
                    (if map fst fixes \<noteq> [] then [fixSection fixes] else []))))"

text \<open>
  \<open>files\<close> is what \<open>fs.readFileSync\<close> reads; a file that cannot be read raises. The
  result of \<open>writeConfig\<close> is the write it makes: the path and the text.
\<close>

definition readAll :: "(string \<Rightarrow> string option) \<Rightarrow> string list \<Rightarrow> error + string list" where
  "readAll files paths =
     (case those (map files paths) of None \<Rightarrow> Inl FileError | Some texts \<Rightarrow> Inr texts)"

definition writeConfig ::
  "(string \<Rightarrow> string option) \<Rightarrow> BuildOptions \<Rightarrow>
   (string \<times> (string \<times> PackageSpec) list) list \<Rightarrow> (string \<times> string) list \<Rightarrow> string \<Rightarrow>
   error + (string \<times> string)" where
  "writeConfig files options repos fixes shimPath =
     (case sectionListOf repos fixes shimPath of
        Inl err \<Rightarrow> Inl err
      | Inr sections \<Rightarrow>
          (case includeConfigList options of
             None \<Rightarrow> Inl TypeError
           | Some paths \<Rightarrow>
               (case readAll files paths of
                  Inl err \<Rightarrow> Inl err
                | Inr texts \<Rightarrow>
                    (let output = join [NL]
                           [''// Autogenerated using cbuild'' @ join [NL] texts,
                            ''System.config({'',
                            join ('','' @ [NL]) sections,
                            ''});'',
                            []]
                     in case outConfigPath options of
                          None \<Rightarrow> Inl TypeError
                        | Some outPath \<Rightarrow> Inr (outPath, output)))))"

text \<open>
  The last step of \<open>build\<close>: when \<open>options.outConfigPath\<close> is set (a non-empty string),
  the shim module is resolved from the manifest of the base directory and the
  configuration is written. \<open>manifestPath\<close> stands for
  \<open>path.resolve(basePath, 'package.json')\<close>.
\<close>

definition emitConfig ::
  "env \<Rightarrow> (string \<Rightarrow> string option) \<Rightarrow> BuildOptions \<Rightarrow> tables \<Rightarrow> string \<Rightarrow>
   error + (string \<times> string) option" where
  "emitConfig e files options st manifestPath =
     (case outConfigPath options of
        None \<Rightarrow> Inr None
      | Some outPath \<Rightarrow>
          if outPath = [] then Inr None
          else
            (case resolver e (if debug options = Some True then ''cbuild/process-dev.js''
                              else ''cbuild/process.js'') manifestPath of
               None \<Rightarrow> Inl ResolveError
             | Some (shimPath, calls) \<Rightarrow>
                 (case writeConfig files options (repoTbl st) (fixTbl st)
                         (relative e (basePath e) shimPath) of
                    Inl err \<Rightarrow> Inl err
                  | Inr w \<Rightarrow> Inr (Some w))))"

section \<open>Dependency Tree Reporter: makeTree\<close>



text \<open>
  A name handed to \<open>report\<close> is what \<open>item.depMap[dep]\<close> gives: a string; or
  \<open>undefined\<close>, when \<open>depMap\<close> has no entry for \<open>dep\<close>; or, when \<open>dep\<close> is an inherited
  name that \<open>depMap\<close> does not hold itself, the inherited member of that name. Used as
  a key of a table, \<open>undefined\<close> is the string \<open>undefined\<close>, and a member is its text
  (as Node prints a native function, and an object).
\<close>

datatype modname = Name string | Undefined | Member string

definition member_text :: "string \<Rightarrow> string" where
  "member_text m =
     (if m = ''__proto__'' then ''[object Object]''
      else ''function '' @ (if m = ''constructor'' then ''Object'' else m) @ ''() { [native code] }'')"

definition key :: "modname \<Rightarrow> string" where
  "key name = (case name of Name s \<Rightarrow> s | Undefined \<Rightarrow> ''undefined'' | Member m \<Rightarrow> member_text m)"

text \<open>The array \<open>[name, child, child, ...]\<close>.\<close>

datatype Branch = Branch (label: modname) (children: "Branch list")

text \<open>
  The source keeps references to the branches of the one output tree and pushes new
  leaves into them. A reference is modelled as the position of the branch in the output
  tree: the list of child indices on the way from the root. Positions are stable, as
  children are only ever appended.
\<close>

fun subtree :: "Branch \<Rightarrow> nat list \<Rightarrow> Branch option" where
  "subtree b [] = Some b"
| "subtree b (i # p) = (if i < length (children b) then subtree (children b ! i) p else None)"

fun push_at :: "nat list \<Rightarrow> Branch \<Rightarrow> Branch \<Rightarrow> Branch" where
  "push_at [] leaf b = Branch (label b) (children b @ [leaf])"
| "push_at (i # p) leaf b =
     (if i < length (children b)
      then Branch (label b) ((children b)[i := push_at p leaf (children b ! i)])
      else b)"

definition n_children :: "Branch \<Rightarrow> nat list \<Rightarrow> nat" where
  "n_children t p = (case subtree t p of None \<Rightarrow> 0 | Some b \<Rightarrow> length (children b))"

text \<open>
  The variables of one call: the output tree, the queue and the entries written to the
  table \<open>found\<close>, which give for each reported name the reference to its branch.
\<close>

record mt_state =
  outTree :: Branch
  queue :: "modname list"
  found :: "string \<Rightarrow> nat list option"

text \<open>
  \<open>report(name, branch)\<close>. The test \<open>!found[name]\<close> is false when the table has an
  entry for the name and also when the name is inherited: \<open>found\<close> is made by \<open>{}\<close>,
  so such a name is never reported. The branch is a reference that may be \<open>undefined\<close>;
  pushing into it would then raise.
\<close>

definition report :: "modname \<Rightarrow> nat list option \<Rightarrow> mt_state \<Rightarrow> error + mt_state" where
  "report name branch s =
     (if found s (key name) \<noteq> None \<or> key name \<in> set inherited then Inr s
      else case branch of
             None \<Rightarrow> Inl TypeError
           | Some pos \<Rightarrow>
               Inr (s\<lparr>found := (found s)(key name \<mapsto> pos @ [n_children (outTree s) pos]),
                      outTree := push_at pos (Branch name []) (outTree s),
                      queue := queue s @ [name]\<rparr>))"





lemma report_found_mono:
  "report name branch s = Inr s' \<Longrightarrow> dom (found s) \<subseteq> dom (found s')"
  by (auto simp: report_def split: if_splits option.splits)







text \<open>
  The vocabulary of the statements about \<open>makeTree\<close>: the label at a position of a
  tree; the import edges of the module table (a module imports the keys of its
  targets); the edges that the traversal follows, which are the imports of a name that
  is not inherited; the entry points it starts from, which are those with a name that
  is not inherited; and the modules that \<open>n\<close> followed hops lead to from a set of
  entry points.
\<close>

definition label_at :: "Branch \<Rightarrow> nat list \<Rightarrow> modname option" where
  "label_at t p = map_option label (subtree t p)"






text \<open>
  The invariant of the traversal. \<open>core\<close> ties the table \<open>found\<close> to the output tree:
  the branches below the root are the found modules, each at its position, a branch
  directly below the root is an entry point, and a deeper one hangs below a module that
  imports it. \<open>bfs_inv\<close> holds while the targets of the branch at \<open>pos\<close> are
  reported; \<open>X\<close> holds the module under expansion. \<open>loop_inv\<close> holds each time the
  loop tests its condition.
\<close>

text \<open>
  The order in which the traversal makes the branches: level by level, and on one level
  from left to right. On positions this is: shorter first, and among positions of one
  length the lexicographically smaller first.
\<close>

definition before :: "nat list \<Rightarrow> nat list \<Rightarrow> bool" where
  "before p q = (length p < length q \<or> (length p = length q \<and> p < q))"







section \<open>A sample project\<close>

text \<open>
  A POSIX project in \<open>/proj\<close>, used to run the operations on concrete inputs.
  \<open>path.relative\<close> of a path below the directory it is taken from drops that directory
  and the slash after it; \<open>path.dirname\<close> of a path with an inner slash is what stands
  before its last slash. The bundler's normalizer resolves a name against the base URL
  and appends \<open>.js\<close>. The resolver knows the package \<open>pkg\<close>, a module inside it, the
  package \<open>dep\<close> installed below \<open>pkg\<close>, and the built-in module \<open>fs\<close>, which it gives
  back as it is.
\<close>

definition demoManifest :: string where
  "demoManifest = ''/proj/node_modules/pkg/package.json''"

definition demoResolver :: "string \<Rightarrow> string \<Rightarrow> (string \<times> (string option \<times> string) list) option" where
  "demoResolver name filename =
     (if name = ''pkg'' then
        Some (''/proj/node_modules/pkg/main.js'', [(Some ''pkg'', demoManifest)])
      else if name = ''pkg/lib/sub'' then
        Some (''/proj/node_modules/pkg/lib/sub.js'', [(Some ''pkg'', demoManifest)])
      else if name = ''dep'' then
        Some (''/proj/node_modules/pkg/node_modules/dep/index.js'',
              [(Some ''dep'', ''/proj/node_modules/pkg/node_modules/dep/package.json'')])
      else if name = ''fs'' then Some (''fs'', [])
      else None)"

definition demoEnv :: env where
  "demoEnv =
     \<lparr>plat = Posix,
      basePath = ''/proj'',
      relative = (\<lambda>from to. drop (Suc (length from)) to),
      dirname = (\<lambda>p. rev (drop 1 (dropWhile (\<lambda>c. c \<noteq> CHR ''/'') (rev p)))),
      stat = (\<lambda>p. p \<in> set [''/proj/lib/index.js'', ''/proj/other.js'', ''/proj/main.js'']),
      resolver = demoResolver,
      oldNormalize = (\<lambda>name parentName parentAddress. Some (''file:///proj/'' @ name @ ''.js'')),
      loaderMap = None\<rparr>"


definition noTables :: tables where
  "noTables = \<lparr>fixTbl = [], repoTbl = [], resolveCalls = []\<rparr>"

definition demoOptions :: BuildOptions where
  "demoOptions =
     \<lparr>debug = None, sfx = None, bundlePath = None, sourcePath = None,
      outConfigPath = Some ''/proj/config-npm.js'', includeConfigList = Some [],
      mapPackages = None\<rparr>"


text \<open>
  Two fix tables with the same entries, written in opposite orders.
\<close>

definition demoFixesAB :: "(string \<times> string) list" where
  "demoFixesAB = [(''./a.js'', ''./a/index.js''), (''./b.js'', ''./b/index.js'')]"

definition demoFixesBA :: "(string \<times> string) list" where
  "demoFixesBA = [(''./b.js'', ''./b/index.js''), (''./a.js'', ''./a/index.js'')]"






section \<open>Path/URL codec: round trip\<close>

lemma replace_char_inverse:
  "b \<notin> set s \<Longrightarrow> replace_char b a (replace_char a b s) = s"
  by (induction s) (auto simp: replace_char_def)

lemma alnum_not_sep: "\<not> alnum (CHR ''/'')" "\<not> alnum BSL" "\<not> alnum (CHR '':'')"
  by (simp_all add: alnum_def BSL_def)

lemma takeWhile_alnum_replace:
  "takeWhile alnum (replace_char BSL (CHR ''/'') s) = takeWhile alnum s"
  by (induction s) (auto simp: replace_char_def alnum_not_sep)

lemma dropWhile_alnum_replace:
  "dropWhile alnum (replace_char BSL (CHR ''/'') s) = replace_char BSL (CHR ''/'') (dropWhile alnum s)"
  by (induction s) (auto simp: replace_char_def alnum_not_sep)

lemma strip_file_scheme_added: "strip_file_scheme (''file://'' @ s) = s"
  by (simp add: strip_file_scheme_def)

lemma root_to_file_scheme_root:
  "root_to_file_scheme (CHR ''/'' # r) = ''file://'' @ (CHR ''/'' # r)"
  by (simp add: root_to_file_scheme_def)

lemma root_to_file_scheme_other:
  "(\<And>r. s \<noteq> CHR ''/'' # r) \<Longrightarrow> root_to_file_scheme s = s"
  by (cases s) (auto simp: root_to_file_scheme_def)

lemma strip_file_scheme_other:
  "\<not> prefix ''file://'' s \<Longrightarrow> strip_file_scheme s = s"
  by (simp only: strip_file_scheme_def if_False)

lemma roundtrip_posix:
  assumes "\<not> prefix ''file://'' p"
  shows "url2path Posix (path2url Posix p) = p"
proof (cases "\<exists>r. p = CHR ''/'' # r")
  case True
  then obtain r where "p = CHR ''/'' # r" by blast
  then show ?thesis
    by (simp only: url2path_def path2url_def path_sep_def platform.case Let_def if_False
        root_to_file_scheme_root strip_file_scheme_added simp_thms)
next
  case False
  then have "root_to_file_scheme p = p"
    by (intro root_to_file_scheme_other) blast
  with assms show ?thesis
    by (simp only: url2path_def path2url_def path_sep_def platform.case Let_def if_False
        strip_file_scheme_other simp_thms)
qed

lemma drive_match_not_root: "drive_match s \<Longrightarrow> s \<noteq> CHR ''/'' # r"
  by (auto simp: drive_match_def alnum_not_sep)

lemma drive_match_prefix_file: "prefix ''file://'' s \<Longrightarrow> drive_match s"
  by (auto simp: drive_match_def prefix_def alnum_def)

lemma take2_replace:
  assumes "CHR ''/'' \<notin> set s"
  shows "(take 2 (replace_char BSL (CHR ''/'') s) = '':/'') = (take 2 s = [CHR '':'', BSL])"
proof (cases s)
  case Nil
  then show ?thesis by (simp add: replace_char_def)
next
  case (Cons a t)
  note outer = Cons
  show ?thesis
  proof (cases t)
    case Nil
    with outer show ?thesis by (simp add: replace_char_def)
  next
    case (Cons b t')
    with outer assms show ?thesis
      by (auto simp: replace_char_def BSL_def)
  qed
qed

lemma drive_match_replace:
  assumes "CHR ''/'' \<notin> set r"
  shows "drive_match (replace_char BSL (CHR ''/'') r) =
         (takeWhile alnum r \<noteq> [] \<and> take 2 (dropWhile alnum r) = [CHR '':'', BSL])"
proof -
  have "CHR ''/'' \<notin> set (dropWhile alnum r)"
    using assms by (auto dest: set_dropWhileD)
  then show ?thesis
    by (simp add: drive_match_def takeWhile_alnum_replace dropWhile_alnum_replace take2_replace)
qed

lemma url_drive_match_replace:
  assumes "CHR ''/'' \<notin> set p"
  shows "url_drive_match (replace_char BSL (CHR ''/'') p) = sep_before_drive p"
proof (cases p)
  case Nil
  then show ?thesis by (simp add: url_drive_match_def sep_before_drive_def replace_char_def)
next
  case (Cons c r)
  then have r: "CHR ''/'' \<notin> set r" and c: "c \<noteq> CHR ''/''"
    using assms by auto
  have "replace_char BSL (CHR ''/'') p = (if c = BSL then CHR ''/'' else c) # replace_char BSL (CHR ''/'') r"
    using Cons by (simp add: replace_char_def)
  then show ?thesis
    using Cons c by (simp add: url_drive_match_def sep_before_drive_def drive_match_replace[OF r])
qed

lemma roundtrip_win32:
  assumes "CHR ''/'' \<notin> set p" and "\<not> sep_before_drive p"
  shows "url2path Win32 (path2url Win32 p) = p"
proof -
  define u where "u = replace_char BSL (CHR ''/'') p"
  have bk: "replace_char (CHR ''/'') BSL u = p"
    unfolding u_def using assms(1) by (rule replace_char_inverse)
  have nud: "\<not> url_drive_match u"
    unfolding u_def using assms by (simp add: url_drive_match_replace)
  have sepw: "path_sep Win32 = BSL" "BSL \<noteq> CHR ''/''"
    by (simp_all add: path_sep_def BSL_def)
  show ?thesis
  proof (cases "drive_match u")
    case True
    have "url_drive_match (CHR ''/'' # u)"
      using True by (simp add: url_drive_match_def)
    then show ?thesis
      using True bk sepw
      by (simp add: url2path_def path2url_def u_def[symmetric] root_to_file_scheme_root
          strip_file_scheme_added del: append.simps)
  next
    case False
    show ?thesis
    proof (cases "\<exists>r. u = CHR ''/'' # r")
      case True
      then obtain r where r: "u = CHR ''/'' # r" by blast
      show ?thesis
        using False bk sepw nud
        by (simp add: url2path_def path2url_def u_def[symmetric] strip_file_scheme_added
            root_to_file_scheme_root[of r, folded r] del: append.simps)
    next
      case nr: False
      then have "root_to_file_scheme u = u"
        by (intro root_to_file_scheme_other) blast
      moreover have "strip_file_scheme u = u"
        using False drive_match_prefix_file strip_file_scheme_other by blast
      ultimately show ?thesis
        using False bk sepw nud
        by (simp add: url2path_def path2url_def u_def[symmetric])
    qed
  qed
qed

text \<open>
  Claim C7 (as amended). The round trip \<open>url2path (path2url p) = p\<close> holds for every POSIX
  path that does not begin with the text \<open>file://\<close>, and for every Windows path that
  holds no forward slash and does not begin with a backslash in front of a drive
  designator. Both conversions are functions of their argument alone, defined on every
  string.
\<close>

theorem codec_roundtrip:
  assumes "pf = Posix \<longrightarrow> \<not> prefix ''file://'' p"
    and "pf = Win32 \<longrightarrow> CHR ''/'' \<notin> set p \<and> \<not> sep_before_drive p"
  shows "url2path pf (path2url pf p) = p"
proof (cases pf)
  case Posix
  with assms(1) show ?thesis by (simp add: roundtrip_posix)
next
  case Win32
  with assms(2) show ?thesis by (simp add: roundtrip_win32)
qed

text \<open>The round trip on an absolute POSIX path and on a Windows path with a drive.\<close>

theorem codec_roundtrip_witness:
  "url2path Posix (path2url Posix ''/proj/src/main.js'') = ''/proj/src/main.js''
   \<and> path2url Posix ''/proj/src/main.js'' = ''file:///proj/src/main.js''
   \<and> url2path Win32 (path2url Win32 ([CHR ''C'', CHR '':'', BSL] @ ''proj''))
       = [CHR ''C'', CHR '':'', BSL] @ ''proj''
   \<and> path2url Win32 ([CHR ''C'', CHR '':'', BSL] @ ''proj'') = ''file:///C:/proj''"
proof -
  have "url2path Posix (path2url Posix ''/proj/src/main.js'') = ''/proj/src/main.js''"
    using codec_roundtrip[of Posix "''/proj/src/main.js''"] by simp
  moreover have "url2path Win32 (path2url Win32 ([CHR ''C'', CHR '':'', BSL] @ ''proj''))
       = [CHR ''C'', CHR '':'', BSL] @ ''proj''"
    using codec_roundtrip[of Win32 "[CHR ''C'', CHR '':'', BSL] @ ''proj''"]
    by (simp add: sep_before_drive_def BSL_def)
  moreover have "path2url Posix ''/proj/src/main.js'' = ''file:///proj/src/main.js''"
    by (simp add: path2url_def path_sep_def root_to_file_scheme_def)
  moreover have "path2url Win32 ([CHR ''C'', CHR '':'', BSL] @ ''proj'') = ''file:///C:/proj''"
    by (simp add: path2url_def path_sep_def root_to_file_scheme_def replace_char_def
        drive_match_def alnum_def BSL_def)
  ultimately show ?thesis by blast
qed

text \<open>
  Claim C7 as stated fails: a Windows path written with forward slashes, which Windows
  accepts, comes back with backslashes; and a relative POSIX path whose first
  directory is named \<open>file:\<close> loses its beginning.
\<close>

theorem codec_roundtrip_counterexample:
  "url2path Win32 (path2url Win32 ''C:/proj'') = [CHR ''C'', CHR '':'', BSL] @ ''proj''
   \<and> url2path Win32 (path2url Win32 ''C:/proj'') \<noteq> ''C:/proj''
   \<and> url2path Posix (path2url Posix ''file://x'') = ''x''
   \<and> url2path Posix (path2url Posix ''file://x'') \<noteq> ''file://x''"
  by (simp add: url2path_def path2url_def path_sep_def replace_char_def drive_match_def alnum_def
      root_to_file_scheme_def strip_file_scheme_def url_drive_match_def BSL_def)

section \<open>Package Resolver Adapter: properties\<close>

lemma makeSpec_ok: "\<exists>spec. makeSpec e name pathName calls = Inr spec"
  by (cases calls) (auto simp: makeSpec_def rootNameOf_def rootDirOf_def)

lemma specOf_storeSpec:
  "specOf (storeSpec name spec st) (repo_path_of (rootPath spec)) name = Some spec"
  by (simp add: specOf_def storeSpec_def Let_def update_conv')

lemma findPackage_calls:
  "resolveCalls (snd (findPackage e st name parentName))
     = resolveCalls st @ [(name, url2path (plat e) parentName)]"
  by (simp add: findPackage_def storeSpec_def Let_def split: option.splits sum.splits prod.splits)

text \<open>
  Claim C5. \<open>findPackage\<close> fails with the error \<open>Internal module\<close> exactly when the path
  the external resolver gives is the requested name itself, and then neither the
  repository table (which holds the package specs) nor the fix table is changed.
\<close>

theorem internal_module_error:
  "(fst (findPackage e st name parentName) = Inl InternalModule)
     = (\<exists>calls. resolver e name (url2path (plat e) parentName) = Some (name, calls))
   \<and> (fst (findPackage e st name parentName) = Inl InternalModule \<longrightarrow>
        repoTbl (snd (findPackage e st name parentName)) = repoTbl st
        \<and> fixTbl (snd (findPackage e st name parentName)) = fixTbl st)"
proof (cases "resolver e name (url2path (plat e) parentName)")
  case None
  then show ?thesis by (simp add: findPackage_def Let_def)
next
  case (Some r)
  obtain pathName calls where r: "r = (pathName, calls)" by (cases r)
  obtain spec where "makeSpec e name pathName calls = Inr spec"
    using makeSpec_ok by blast
  with Some r show ?thesis
    by (simp add: findPackage_def Let_def)
qed

text \<open>The built-in module \<open>fs\<close> of the sample project: the error, and empty tables.\<close>

theorem internal_module_error_witness:
  "findPackage demoEnv noTables ''fs'' ''file:///proj/main.js''
     = (Inl InternalModule, noTables\<lparr>resolveCalls := [(''fs'', ''/proj/main.js'')]\<rparr>)
   \<and> repoTbl (snd (findPackage demoEnv noTables ''fs'' ''file:///proj/main.js'')) = []
   \<and> fixTbl (snd (findPackage demoEnv noTables ''fs'' ''file:///proj/main.js'')) = []"
proof -
  have r: "findPackage demoEnv noTables ''fs'' ''file:///proj/main.js''
     = (Inl InternalModule, noTables\<lparr>resolveCalls := [(''fs'', ''/proj/main.js'')]\<rparr>)"
    by (simp add: findPackage_def demoEnv_def demoResolver_def noTables_def url2path_def
        path_sep_def strip_file_scheme_def)
  then show ?thesis
    using internal_module_error[of demoEnv noTables "''fs''" "''file:///proj/main.js''"]
    by (simp add: noTables_def)
qed

text \<open>
  Claim C4 (as amended). After a successful resolution the spec recorded under the
  requested name has an \<open>entryPath\<close> exactly when the name of the last manifest the
  resolver met equals the requested name. In that case \<open>entryPath\<close> is the resolved file
  relative to the directory of that manifest, and \<open>rootPath\<close> is that directory relative
  to the base directory; otherwise \<open>rootPath\<close> is the resolved file itself relative to
  the base directory. Each is passed through \<open>path2url\<close>.
\<close>

theorem package_spec_fields:
  assumes "findPackage e st name parentName = (Inr resolved, st')"
  shows "\<exists>pathName calls spec.
           resolver e name (url2path (plat e) parentName) = Some (pathName, calls)
         \<and> specOf st' (repo_path_of (rootPath spec)) name = Some spec
         \<and> (entryPath spec \<noteq> None) = (rootNameOf calls = Some name)
         \<and> (if rootNameOf calls = Some name
            then entryPath spec
                   = Some (path2url (plat e) (relative e (dirname e (snd (last calls))) pathName))
               \<and> rootPath spec
                   = path2url (plat e) (relative e (basePath e) (dirname e (snd (last calls))))
            else rootPath spec = path2url (plat e) (relative e (basePath e) pathName))"
proof -
  from assms obtain pathName calls spec where
    r: "resolver e name (url2path (plat e) parentName) = Some (pathName, calls)"
    and m: "makeSpec e name pathName calls = Inr spec"
    and s: "st' = storeSpec name spec
                   (st\<lparr>resolveCalls := resolveCalls st @ [(name, url2path (plat e) parentName)]\<rparr>)"
    by (auto simp: findPackage_def Let_def split: option.splits prod.splits sum.splits if_splits)
  have "specOf st' (repo_path_of (rootPath spec)) name = Some spec"
    unfolding s by (rule specOf_storeSpec)
  moreover have "(entryPath spec \<noteq> None) = (rootNameOf calls = Some name)"
    using m by (auto simp: makeSpec_def split: if_splits option.splits)
  moreover have "if rootNameOf calls = Some name
            then entryPath spec
                   = Some (path2url (plat e) (relative e (dirname e (snd (last calls))) pathName))
               \<and> rootPath spec
                   = path2url (plat e) (relative e (basePath e) (dirname e (snd (last calls))))
            else rootPath spec = path2url (plat e) (relative e (basePath e) pathName)"
    using m by (cases calls) (auto simp: makeSpec_def rootDirOf_def split: if_splits option.splits)
  ultimately show ?thesis using r by blast
qed

lemma demo_repo_path: "repo_path_of ''node_modules/pkg'' = ''node_modules''"
  by (simp add: repo_path_of_def container_at_def lower_char_def after_dots_def
      line_terminator_def NL_def CR_def)

text \<open>The package \<open>pkg\<close> of the sample project, requested by its own name.\<close>

theorem package_spec_fields_witness:
  "findPackage demoEnv noTables ''pkg'' ''file:///proj/main.js''
     = (Inr ''node_modules/pkg/main.js'',
        \<lparr>fixTbl = [],
         repoTbl = [(''node_modules'',
                     [(''pkg'', \<lparr>entryPath = Some ''main.js'', rootPath = ''node_modules/pkg''\<rparr>)])],
         resolveCalls = [(''pkg'', ''/proj/main.js'')]\<rparr>)
   \<and> specOf (snd (findPackage demoEnv noTables ''pkg'' ''file:///proj/main.js''))
         ''node_modules'' ''pkg''
       = Some \<lparr>entryPath = Some ''main.js'', rootPath = ''node_modules/pkg''\<rparr>"
proof -
  have r: "findPackage demoEnv noTables ''pkg'' ''file:///proj/main.js''
     = (Inr ''node_modules/pkg/main.js'',
        \<lparr>fixTbl = [],
         repoTbl = [(''node_modules'',
                     [(''pkg'', \<lparr>entryPath = Some ''main.js'', rootPath = ''node_modules/pkg''\<rparr>)])],
         resolveCalls = [(''pkg'', ''/proj/main.js'')]\<rparr>)"
    by (simp add: findPackage_def demoEnv_def demoResolver_def noTables_def url2path_def
      path_sep_def strip_file_scheme_def makeSpec_def rootNameOf_def rootDirOf_def demoManifest_def
      path2url_def root_to_file_scheme_def storeSpec_def demo_repo_path)
  from package_spec_fields[OF r]
  show ?thesis
    using r by (simp add: specOf_def)
qed

text \<open>
  Claim C4 as stated fails: for the module \<open>pkg/lib/sub\<close> inside the package \<open>pkg\<close> the
  recorded \<open>rootPath\<close> is the resolved file, not the root directory of the package.
\<close>

theorem package_spec_fields_counterexample:
  "specOf (snd (findPackage demoEnv noTables ''pkg/lib/sub'' ''file:///proj/main.js''))
       ''node_modules'' ''pkg/lib/sub''
     = Some \<lparr>entryPath = None, rootPath = ''node_modules/pkg/lib/sub.js''\<rparr>
   \<and> path2url Posix (relative demoEnv (basePath demoEnv) (dirname demoEnv demoManifest))
     = ''node_modules/pkg''
   \<and> ''node_modules/pkg/lib/sub.js''
     \<noteq> path2url Posix (relative demoEnv (basePath demoEnv) (dirname demoEnv demoManifest))"
  by (simp add: findPackage_def demoEnv_def demoResolver_def noTables_def url2path_def
      path_sep_def strip_file_scheme_def makeSpec_def rootNameOf_def rootDirOf_def demoManifest_def
      path2url_def root_to_file_scheme_def storeSpec_def specOf_def
      repo_path_of_def container_at_def lower_char_def after_dots_def line_terminator_def NL_def CR_def)

section \<open>Normalization Interceptor: properties\<close>

lemma indexNameOf_js: "indexNameOf (stem @ ''.js'') = stem @ ''/index.js''"
  by (simp add: indexNameOf_def line_terminator_def NL_def CR_def nth_append)

text \<open>
  Claim C1 (as amended). When the candidate path of a specifier does not exist, its
  directory-index path does, and the alias map of the loader does not redirect the
  name, the interceptor returns the index path (for a candidate \<open>stem.js\<close> that is
  \<open>stem/index.js\<close>), writes one entry into the fix table, from \<open>./\<close> and the relative
  candidate path to \<open>./\<close> and the relative index path, and leaves the repository table
  and the record of resolver calls as they were: package resolution is not attempted.
\<close>

theorem index_fallback:
  assumes "oldNormalize e name parentName parentAddress = Some pathName"
    and "\<not> stat e (url2path (plat e) pathName)"
    and "stat e (url2path (plat e) (indexNameOf pathName))"
    and "aliasOf e name = None"
  shows "\<exists>st'. loaderNormalize (Suc fuel) e name parentName parentAddress st
                  = Some (Inr (indexNameOf pathName), st')
             \<and> fixTbl st' =
                 AList.update (''./'' @ relative e (basePath e) (url2path (plat e) pathName))
                   (''./'' @ relative e (basePath e) (url2path (plat e) (indexNameOf pathName)))
                   (fixTbl st)
             \<and> repoTbl st' = repoTbl st
             \<and> resolveCalls st' = resolveCalls st
             \<and> (\<forall>stem. pathName = stem @ ''.js'' \<longrightarrow> indexNameOf pathName = stem @ ''/index.js'')"
  using assms by (simp add: newNormalize_def indexNameOf_js Let_def)

text \<open>The directory \<open>lib\<close> of the sample project, imported as \<open>lib\<close>.\<close>

theorem index_fallback_witness:
  "loaderNormalize 1 demoEnv ''lib'' ''file:///proj/main.js'' [] noTables
     = Some (Inr ''file:///proj/lib/index.js'',
             noTables\<lparr>fixTbl := [(''./lib.js'', ''./lib/index.js'')]\<rparr>)"
  using index_fallback[of demoEnv "''lib''" "''file:///proj/main.js''" "[]"
      "''file:///proj/lib.js''" 0 noTables]
  by (simp add: demoEnv_def noTables_def aliasOf_def url2path_def path_sep_def strip_file_scheme_def
      indexNameOf_def line_terminator_def NL_def CR_def Let_def newNormalize_def)

text \<open>
  Claim C1 as stated fails: the alias map is looked at before the index path. With
  \<open>lib\<close> mapped to \<open>other\<close>, the candidate \<open>/proj/lib.js\<close> missing and
  \<open>/proj/lib/index.js\<close> present, the interceptor returns what the hook gives for
  \<open>other\<close> and writes no entry into the fix table.
\<close>

theorem index_fallback_counterexample:
  "oldNormalize (demoEnv\<lparr>loaderMap := Some [''lib'' \<mapsto> ''other'']\<rparr>)
       ''lib'' ''file:///proj/main.js'' []
     = Some ''file:///proj/lib.js''
   \<and> \<not> stat (demoEnv\<lparr>loaderMap := Some [''lib'' \<mapsto> ''other'']\<rparr>)
         (url2path Posix ''file:///proj/lib.js'')
   \<and> indexNameOf ''file:///proj/lib.js'' = ''file:///proj/lib/index.js''
   \<and> stat (demoEnv\<lparr>loaderMap := Some [''lib'' \<mapsto> ''other'']\<rparr>)
         (url2path Posix ''file:///proj/lib/index.js'')
   \<and> loaderNormalize 2 (demoEnv\<lparr>loaderMap := Some [''lib'' \<mapsto> ''other'']\<rparr>)
         ''lib'' ''file:///proj/main.js'' [] noTables
       = Some (Inr ''file:///proj/other.js'', noTables)"
  by (simp add: demoEnv_def noTables_def aliasOf_def url2path_def path_sep_def strip_file_scheme_def
      indexNameOf_def line_terminator_def NL_def CR_def newNormalize_def numeral_2_eq_2 Let_def)

text \<open>
  Claim C2. When neither the candidate path nor its index path exists and the alias map
  does not redirect the name, the interceptor calls \<open>findPackage\<close>, which calls the
  external resolver once, and returns the path it resolved; when \<open>findPackage\<close> fails,
  with whatever error, the interceptor returns the candidate path and no error.
\<close>

theorem package_fallback:
  assumes "oldNormalize e name parentName parentAddress = Some pathName"
    and "\<not> stat e (url2path (plat e) pathName)"
    and "\<not> stat e (url2path (plat e) (indexNameOf pathName))"
    and "aliasOf e name = None"
  shows "loaderNormalize (Suc fuel) e name parentName parentAddress st
           = Some (Inr (case fst (findPackage e st name parentName) of
                          Inr resolved \<Rightarrow> resolved
                        | Inl err \<Rightarrow> pathName),
                   snd (findPackage e st name parentName))
         \<and> resolveCalls (snd (findPackage e st name parentName))
             = resolveCalls st @ [(name, url2path (plat e) parentName)]
         \<and> fixTbl (snd (findPackage e st name parentName)) = fixTbl st"
  using assms
  by (auto simp: newNormalize_def findPackage_calls Let_def split: prod.splits sum.splits)
     (auto simp: findPackage_def storeSpec_def Let_def
           split: option.splits sum.splits prod.splits if_splits)

text \<open>
  In the sample project: the package \<open>pkg\<close> is resolved; the built-in module \<open>fs\<close> and the
  unknown name \<open>nothing\<close> come back as their candidate paths.
\<close>

theorem package_fallback_witness:
  "loaderNormalize 1 demoEnv ''pkg'' ''file:///proj/main.js'' [] noTables
     = Some (Inr ''node_modules/pkg/main.js'',
             \<lparr>fixTbl = [],
              repoTbl = [(''node_modules'',
                          [(''pkg'', \<lparr>entryPath = Some ''main.js'', rootPath = ''node_modules/pkg''\<rparr>)])],
              resolveCalls = [(''pkg'', ''/proj/main.js'')]\<rparr>)
   \<and> loaderNormalize 1 demoEnv ''fs'' ''file:///proj/main.js'' [] noTables
     = Some (Inr ''file:///proj/fs.js'', noTables\<lparr>resolveCalls := [(''fs'', ''/proj/main.js'')]\<rparr>)
   \<and> loaderNormalize 1 demoEnv ''nothing'' ''file:///proj/main.js'' [] noTables
     = Some (Inr ''file:///proj/nothing.js'',
             noTables\<lparr>resolveCalls := [(''nothing'', ''/proj/main.js'')]\<rparr>)"
proof -
  have env: "aliasOf demoEnv n = None"
    "oldNormalize demoEnv n ''file:///proj/main.js'' [] = Some (''file:///proj/'' @ n @ ''.js'')"
    "plat demoEnv = Posix" for n
    by (simp_all add: aliasOf_def demoEnv_def)
  have st: "\<not> stat demoEnv (url2path Posix ''file:///proj/pkg.js'')"
    "\<not> stat demoEnv (url2path Posix (indexNameOf ''file:///proj/pkg.js''))"
    "\<not> stat demoEnv (url2path Posix ''file:///proj/fs.js'')"
    "\<not> stat demoEnv (url2path Posix (indexNameOf ''file:///proj/fs.js''))"
    "\<not> stat demoEnv (url2path Posix ''file:///proj/nothing.js'')"
    "\<not> stat demoEnv (url2path Posix (indexNameOf ''file:///proj/nothing.js''))"
    by (simp_all add: demoEnv_def url2path_def path_sep_def strip_file_scheme_def
        indexNameOf_def line_terminator_def NL_def CR_def Let_def)
  have f1: "findPackage demoEnv noTables ''pkg'' ''file:///proj/main.js''
     = (Inr ''node_modules/pkg/main.js'',
        \<lparr>fixTbl = [],
         repoTbl = [(''node_modules'',
                     [(''pkg'', \<lparr>entryPath = Some ''main.js'', rootPath = ''node_modules/pkg''\<rparr>)])],
         resolveCalls = [(''pkg'', ''/proj/main.js'')]\<rparr>)"
    by (simp add: findPackage_def demoEnv_def demoResolver_def noTables_def url2path_def
      path_sep_def strip_file_scheme_def makeSpec_def rootNameOf_def rootDirOf_def demoManifest_def
      path2url_def root_to_file_scheme_def storeSpec_def demo_repo_path)
  have f2: "findPackage demoEnv noTables ''fs'' ''file:///proj/main.js''
     = (Inl InternalModule, noTables\<lparr>resolveCalls := [(''fs'', ''/proj/main.js'')]\<rparr>)"
    by (simp add: findPackage_def demoEnv_def demoResolver_def noTables_def url2path_def
        path_sep_def strip_file_scheme_def)
  have f3: "findPackage demoEnv noTables ''nothing'' ''file:///proj/main.js''
     = (Inl ResolveError, noTables\<lparr>resolveCalls := [(''nothing'', ''/proj/main.js'')]\<rparr>)"
    by (simp add: findPackage_def demoEnv_def demoResolver_def noTables_def url2path_def
        path_sep_def strip_file_scheme_def)
  show ?thesis
    using package_fallback[of demoEnv "''pkg''" "''file:///proj/main.js''" "[]"
        "''file:///proj/pkg.js''" 0 noTables]
      package_fallback[of demoEnv "''fs''" "''file:///proj/main.js''" "[]"
        "''file:///proj/fs.js''" 0 noTables]
      package_fallback[of demoEnv "''nothing''" "''file:///proj/main.js''" "[]"
        "''file:///proj/nothing.js''" 0 noTables]
    by (simp add: env st f1 f2 f3)
qed

section \<open>The grouping key of the repository table\<close>






lemma after_dots_none: "\<forall>ch \<in> set rest. \<not> line_terminator ch \<Longrightarrow> after_dots rest = []"
  by (simp add: after_dots_def)
















section \<open>Config Emitter: properties\<close>

lemma those_map_Some:
  assumes "\<forall>k \<in> set ks. f k \<noteq> None"
  shows "those (map f ks) = Some (map (\<lambda>k. the (f k)) ks)"
  using assms by (induction ks) auto

lemma rowsOf_keys:
  assumes "set ks \<subseteq> fst ` set tbl"
  shows "\<exists>rows. rowsOf tbl ks row = Inr rows"
proof -
  have "\<forall>k \<in> set ks. map_option (row k) (map_of tbl k) \<noteq> None"
    using assms by (auto simp: map_of_eq_None_iff)
  from those_map_Some[OF this] show ?thesis
    by (simp add: rowsOf_def)
qed

lemma rowsOf_sorted_keys: "\<exists>rows. rowsOf tbl (sort (map fst tbl)) row = Inr rows"
  by (rule rowsOf_keys) simp

lemma sectionListOf_ok: "\<exists>sections. sectionListOf repos fixes shimPath = Inr sections"
proof -
  obtain r1 where
    r1: "rowsOf (flattenRepos repos) (sort (map fst (flattenRepos repos))) mapRow = Inr r1"
    using rowsOf_sorted_keys by blast
  obtain r3 where
    r3: "rowsOf (flattenRepos repos) (sort (map fst (flattenRepos repos))) mainRow = Inr r3"
    using rowsOf_sorted_keys by blast
  show ?thesis
    by (simp add: sectionListOf_def mapSection_def packagesSection_def r1 r3 Let_def)
qed

text \<open>
  Claim C3, on the code: the two fix tables \<open>demoFixesAB\<close> and \<open>demoFixesBA\<close> hold the
  same entries, and with everything else equal \<open>writeConfig\<close> writes two different
  texts for them. The rows of the path-rewrite map follow \<open>Object.keys(fixTbl)\<close>, which
  is not sorted, while the keys of the package and repository tables are.
\<close>

theorem config_follows_insertion_order:
  "map_of demoFixesAB = map_of demoFixesBA
   \<and> set demoFixesAB = set demoFixesBA
   \<and> writeConfig Map.empty demoOptions [] demoFixesAB ''node_modules/cbuild/process.js''
       \<noteq> writeConfig Map.empty demoOptions [] demoFixesBA ''node_modules/cbuild/process.js''
   \<and> map (fixRow demoFixesAB) (map fst demoFixesAB)
       = rev (map (fixRow demoFixesBA) (map fst demoFixesBA))"
proof -
  have "map_of demoFixesAB = map_of demoFixesBA"
    by (auto simp: demoFixesAB_def demoFixesBA_def)
  moreover have "set demoFixesAB = set demoFixesBA"
    by (auto simp: demoFixesAB_def demoFixesBA_def)
  moreover have
    "writeConfig Map.empty demoOptions [] demoFixesAB ''node_modules/cbuild/process.js''
       \<noteq> writeConfig Map.empty demoOptions [] demoFixesBA ''node_modules/cbuild/process.js''"
    by (simp add: writeConfig_def sectionListOf_def flattenRepos_def ownKeys_def mapSection_def
        packagesSection_def rowsOf_def metaSection_def metaRows_def fixSection_def fixRow_def
        demoFixesAB_def demoFixesBA_def demoOptions_def readAll_def tabs_def quoted_def Let_def)
  moreover have "map (fixRow demoFixesAB) (map fst demoFixesAB)
       = rev (map (fixRow demoFixesBA) (map fst demoFixesBA))"
    by (simp add: fixRow_def demoFixesAB_def demoFixesBA_def)
  ultimately show ?thesis by blast
qed

text \<open>
  Claim C10. When \<open>outConfigPath\<close> is set and the shim module is found, but
  \<open>includeConfigList\<close> is absent, writing the configuration ends in a TypeError; with the
  empty list in its place the configuration is written.
\<close>

theorem missing_include_list:
  assumes "outConfigPath options = Some outPath" and "outPath \<noteq> []"
    and "includeConfigList options = None"
    and "resolver e (if debug options = Some True then ''cbuild/process-dev.js''
                     else ''cbuild/process.js'') manifestPath = Some (shimPath, calls)"
  shows "emitConfig e files options st manifestPath = Inl TypeError
         \<and> writeConfig files options (repoTbl st) (fixTbl st) (relative e (basePath e) shimPath)
             = Inl TypeError
         \<and> (\<exists>text. emitConfig e files (options\<lparr>includeConfigList := Some []\<rparr>) st manifestPath
                     = Inr (Some (outPath, text)))"
proof -
  obtain sections where
    s: "sectionListOf (repoTbl st) (fixTbl st) (relative e (basePath e) shimPath) = Inr sections"
    using sectionListOf_ok by blast
  show ?thesis
    using assms s by (simp add: emitConfig_def writeConfig_def readAll_def Let_def)
qed

text \<open>
  The sample project with the shim module installed: without \<open>includeConfigList\<close> the
  TypeError, with the empty list a configuration text.
\<close>

theorem missing_include_list_witness:
  "emitConfig
      (demoEnv\<lparr>resolver := (\<lambda>name filename. Some (''/proj/node_modules/cbuild/process.js'', []))\<rparr>)
      Map.empty (demoOptions\<lparr>includeConfigList := None\<rparr>) noTables ''/proj/package.json''
     = Inl TypeError
   \<and> (\<exists>text. emitConfig
      (demoEnv\<lparr>resolver := (\<lambda>name filename. Some (''/proj/node_modules/cbuild/process.js'', []))\<rparr>)
      Map.empty demoOptions noTables ''/proj/package.json''
     = Inr (Some (''/proj/config-npm.js'', text)))"
  using missing_include_list[of "demoOptions\<lparr>includeConfigList := None\<rparr>" "''/proj/config-npm.js''"
      "demoEnv\<lparr>resolver := (\<lambda>name filename. Some (''/proj/node_modules/cbuild/process.js'', []))\<rparr>"
      "''/proj/package.json''" "''/proj/node_modules/cbuild/process.js''" "[]" Map.empty noTables]
  by (simp add: demoOptions_def demoEnv_def)

section \<open>Dependency Tree Reporter: the traversal\<close>


lemma before_irrefl: "\<not> before p p"
  by (simp add: before_def)

lemma before_root: "q \<noteq> [] \<Longrightarrow> before [] q"
  by (simp add: before_def)






lemma before_longer: "length p < length q \<Longrightarrow> before p q"
  by (simp add: before_def)



lemma label_at_Nil: "label_at t [] = Some (label t)"
  by (simp add: label_at_def)































section \<open>Dependency Tree Reporter: properties\<close>







end
